theory Spec2Isabelle
  imports Complex_Main "HOL-Library.Word"
begin

section \<open>JavaScript values\<close>

text \<open>
  The service is one module, \<^verbatim>\<open>src/api/index.js\<close>. Its inputs are parsed JSON bodies and
  request headers, so the model works on JavaScript values. A JavaScript string is a
  sequence of UTF-16 code units: \<^verbatim>\<open>.length\<close> counts them and \<^verbatim>\<open>.substring\<close> cuts
  between them.
\<close>

type_synonym jsstring = "16 word list"

definition S :: "string \<Rightarrow> jsstring" where
  "S s = map of_char s"

text \<open>
  A number is given by its value (JSON has neither NaN nor infinities); an object by its
  own properties in order.
\<close>

datatype jsval =
    JUndefined
  | JNull
  | JBool bool
  | JNum rat
  | JStr jsstring
  | JArr "jsval list"
  | JObj "(jsstring \<times> jsval) list"

datatype error = TypeError jsstring | ProviderError jsstring

fun message :: "error \<Rightarrow> jsstring" where
  "message (TypeError m) = m"
| "message (ProviderError m) = m"

text \<open>\<^verbatim>\<open>!v\<close> is \<open>\<not> truthy v\<close>.\<close>

fun truthy :: "jsval \<Rightarrow> bool" where
  "truthy JUndefined = False"
| "truthy JNull = False"
| "truthy (JBool b) = b"
| "truthy (JNum n) = (n \<noteq> 0)"
| "truthy (JStr s) = (s \<noteq> [])"
| "truthy (JArr xs) = True"
| "truthy (JObj kvs) = True"

text \<open>\<^verbatim>\<open>typeof v === 'string'\<close>\<close>

fun is_string :: "jsval \<Rightarrow> bool" where
  "is_string (JStr s) = True"
| "is_string v = False"

text \<open>
  \<^verbatim>\<open>a || b\<close> on an environment variable, which is a string or undefined: the default
  is taken when the variable is unset or empty.
\<close>

fun or_default :: "jsstring option \<Rightarrow> jsstring \<Rightarrow> jsstring" where
  "or_default None d = d"
| "or_default (Some s) d = (if s = [] then d else s)"

text \<open>
  \<^verbatim>\<open>s.includes(sub)\<close>: \<open>sub\<close> occurs in \<open>s\<close> as a contiguous run.
\<close>

fun starts_with :: "'a list \<Rightarrow> 'a list \<Rightarrow> bool" where
  "starts_with s [] = True"
| "starts_with [] (y # ys) = False"
| "starts_with (x # xs) (y # ys) = (x = y \<and> starts_with xs ys)"

fun includes_str :: "'a list \<Rightarrow> 'a list \<Rightarrow> bool" where
  "includes_str [] sub = (sub = [])"
| "includes_str (x # xs) sub = (starts_with (x # xs) sub \<or> includes_str xs sub)"

text \<open>
  Reading a property of a value that is not null or undefined. Only the four body fields
  \<^verbatim>\<open>text\<close>, \<^verbatim>\<open>chunkId\<close>, \<^verbatim>\<open>question\<close>, \<^verbatim>\<open>documentID\<close> are read this way; no
  prototype defines them, so a value that is not an object has none of them.
\<close>

fun own_prop :: "jsval \<Rightarrow> jsstring \<Rightarrow> jsval" where
  "own_prop (JObj kvs) k = (case map_of kvs k of Some v \<Rightarrow> v | None \<Rightarrow> JUndefined)"
| "own_prop v k = JUndefined"

text \<open>
  \<^verbatim>\<open>const { a, b } = req.body\<close> throws a TypeError when the body is null or undefined;
  the message names the first property.
\<close>

fun destructure2 :: "jsval \<Rightarrow> jsstring \<Rightarrow> jsstring \<Rightarrow> error + (jsval \<times> jsval)" where
  "destructure2 JUndefined a b =
     Inl (TypeError (S ''Cannot destructure property '' @ [0x27] @ a @ [0x27] @
                     S '' of 'req.body' as it is undefined.''))"
| "destructure2 JNull a b =
     Inl (TypeError (S ''Cannot destructure property '' @ [0x27] @ a @ [0x27] @
                     S '' of 'req.body' as it is null.''))"
| "destructure2 v a b = Inr (own_prop v a, own_prop v b)"

text \<open>
  A template literal \<^verbatim>\<open>`${v}`\<close> applies ToString to \<open>v\<close>. On a parsed JSON value this
  throws exactly when an object with an own property \<^verbatim>\<open>toString\<close> (never callable in
  JSON) is reached: directly, or as an element of an array, which \<^verbatim>\<open>join\<close> converts.
  The same holds for the conversion to a number that \<^verbatim>\<open>v > 100\<close> applies.
\<close>

fun to_string_throws :: "jsval \<Rightarrow> bool" where
  "to_string_throws (JObj kvs) = (map_of kvs (S ''toString'') \<noteq> None)"
| "to_string_throws (JArr xs) = (\<exists>x \<in> set xs. to_string_throws x)"
| "to_string_throws v = False"

definition template_literal :: "jsval \<Rightarrow> error + unit" where
  "template_literal v =
     (if to_string_throws v
      then Inl (TypeError (S ''Cannot convert object to primitive value''))
      else Inr ())"

text \<open>\<^verbatim>\<open>text.length\<close>, for a truthy \<open>text\<close>.\<close>

fun js_length :: "jsval \<Rightarrow> jsval" where
  "js_length (JStr s) = JNum (of_nat (length s))"
| "js_length (JArr xs) = JNum (of_nat (length xs))"
| "js_length (JObj kvs) = own_prop (JObj kvs) (S ''length'')"
| "js_length v = JUndefined"

section \<open>Collaborators\<close>

text \<open>
  The embedding and chat provider, the vector store, the clock, the process environment
  and the runtime's URL parser are outside the module. One request calls each provider
  operation at most once, so each is a function from the call's arguments to its result,
  \<open>Inl\<close> when the call throws.
\<close>

type_synonym embedding = "rat list"

record index_spec =
  ix_name :: jsstring
  dimension :: nat
  metric :: jsstring
  cloud :: jsstring
  region :: jsstring

record vector_record =
  vr_id :: jsval
  vr_values :: embedding
  vr_metadata_text :: jsval

record match =
  match_id :: jsstring
  score :: rat
  metadata_text :: jsstring

record chat_request =
  model :: jsstring
  system_content :: jsstring
  user_content :: jsval
  temperature :: rat
  max_tokens :: nat

record env =
  OPENAI_MODEL :: "jsstring option"
  PINECONE_INDEX_NAME :: "jsstring option"
  PINECONE_CLOUD :: "jsstring option"
  PINECONE_REGION :: "jsstring option"
  FRONTEND_URL :: "jsstring option"
  new_OpenAI :: "error + unit"
  new_Pinecone :: "error + unit"
  listIndexes :: "error + jsstring list option"
  createIndex :: "index_spec \<Rightarrow> error + unit"
  embeddings_create :: "jsstring \<Rightarrow> jsval \<Rightarrow> error + embedding"
  upsert :: "jsstring \<Rightarrow> vector_record \<Rightarrow> error + unit"
  query :: "jsstring \<Rightarrow> embedding \<Rightarrow> nat \<Rightarrow> bool \<Rightarrow> error + match list"
  chat_completions_create :: "chat_request \<Rightarrow> error + jsstring"
  Date_now :: nat
  gt_coerced :: "jsval \<Rightarrow> rat \<Rightarrow> bool"
  URL_pathname :: "jsstring \<Rightarrow> jsstring \<Rightarrow> error + jsstring"

text \<open>The provider calls a request makes, in order.\<close>

datatype call =
    ListIndexes
  | CreateIndex index_spec
  | EmbeddingsCreate jsstring jsval
  | Upsert jsstring vector_record
  | Query jsstring embedding nat bool
  | ChatCreate chat_request

text \<open>
  \<^verbatim>\<open>v > n\<close> for a number \<open>n\<close>. undefined converts to NaN, null to 0, a boolean to 0 or 1;
  a string, array or object is converted by the runtime (\<open>gt_coerced\<close>), which throws
  where ToString does.
\<close>

fun js_gt :: "env \<Rightarrow> jsval \<Rightarrow> rat \<Rightarrow> error + bool" where
  "js_gt e JUndefined n = Inr False"
| "js_gt e JNull n = Inr (0 > n)"
| "js_gt e (JBool b) n = Inr ((if b then 1 else 0) > n)"
| "js_gt e (JNum x) n = Inr (x > n)"
| "js_gt e v n =
     (if to_string_throws v
      then Inl (TypeError (S ''Cannot convert object to primitive value''))
      else Inr (gt_coerced e v n))"

section \<open>Client initialisation\<close>

text \<open>
  The module-level variables \<^verbatim>\<open>openai\<close>, \<^verbatim>\<open>pineconeIndex\<close> and
  \<^verbatim>\<open>pineconeInitialized\<close>. A handle is represented by whether it is defined; the index
  handle by the name it is bound to.
\<close>

record state =
  openai :: bool
  pineconeIndex :: "jsstring option"
  pineconeInitialized :: bool

definition initial_state :: state where
  "initial_state = \<lparr>openai = False, pineconeIndex = None, pineconeInitialized = False\<rparr>"

definition indexName :: "env \<Rightarrow> jsstring" where
  "indexName e = or_default (PINECONE_INDEX_NAME e) (S ''text-embeddings'')"

definition new_index_spec :: "env \<Rightarrow> index_spec" where
  "new_index_spec e =
     \<lparr>ix_name = indexName e, dimension = 1536, metric = S ''cosine'',
      cloud = or_default (PINECONE_CLOUD e) (S ''aws''),
      region = or_default (PINECONE_REGION e) (S ''us-east-1'')\<rparr>"

text \<open>
  \<^verbatim>\<open>initClients\<close> returns the outcome, the module state afterwards and the provider calls
  made. The 30 second wait after creating the index is not modelled; every \<^verbatim>\<open>throw\<close> is
  an \<open>Inl\<close>. The embedding client is constructed before the \<^verbatim>\<open>try\<close> block, the
  flag is set only after listing and creation went through.
\<close>

definition initClients :: "env \<Rightarrow> state \<Rightarrow> (error + unit) \<times> state \<times> call list" where
  "initClients e s =
     (case (if \<not> openai s then new_OpenAI e else Inr ()) of
        Inl err \<Rightarrow> (Inl err, s, [])
      | Inr _ \<Rightarrow>
          let s1 = s\<lparr>openai := True\<rparr> in
          if \<not> pineconeInitialized s1 then
            (case new_Pinecone e of
               Inl err \<Rightarrow> (Inl err, s1, [])
             | Inr _ \<Rightarrow>
                 (case listIndexes e of
                    Inl err \<Rightarrow> (Inl err, s1, [ListIndexes])
                  | Inr indexList \<Rightarrow>
                      let existingIndexes = (case indexList of Some ns \<Rightarrow> ns | None \<Rightarrow> []) in
                      if indexName e \<notin> set existingIndexes then
                        (case createIndex e (new_index_spec e) of
                           Inl err \<Rightarrow> (Inl err, s1, [ListIndexes, CreateIndex (new_index_spec e)])
                         | Inr _ \<Rightarrow>
                             (Inr (),
                              s1\<lparr>pineconeIndex := Some (indexName e), pineconeInitialized := True\<rparr>,
                              [ListIndexes, CreateIndex (new_index_spec e)]))
                      else
                        (Inr (),
                         s1\<lparr>pineconeIndex := Some (indexName e), pineconeInitialized := True\<rparr>,
                         [ListIndexes])))
          else (Inr (), s1, []))"

text \<open>
  A module state the code can reach: the flag is set only together with the index handle.
\<close>

definition wf_state :: "state \<Rightarrow> bool" where
  "wf_state s = (pineconeInitialized s \<longrightarrow> pineconeIndex s \<noteq> None)"

section \<open>Responses\<close>

text \<open>
  The response object of the runtime: \<^verbatim>\<open>res.status(n)\<close>, \<^verbatim>\<open>res.setHeader(k, v)\<close>,
  \<^verbatim>\<open>res.json(v)\<close> and \<^verbatim>\<open>res.end()\<close>. A response the runtime hands to the handler has
  status code 200, no header and nothing sent.
\<close>

datatype sent = NotSent | Ended | Json jsval

record response =
  statusCode :: nat
  headers :: "jsstring \<rightharpoonup> jsstring"
  sent :: sent

definition new_response :: response where
  "new_response = \<lparr>statusCode = 200, headers = Map.empty, sent = NotSent\<rparr>"

definition status :: "nat \<Rightarrow> response \<Rightarrow> response" where
  "status n res = res\<lparr>statusCode := n\<rparr>"

definition json :: "jsval \<Rightarrow> response \<Rightarrow> response" where
  "json v res = res\<lparr>sent := Json v\<rparr>"

definition end_response :: "response \<Rightarrow> response" where
  "end_response res = res\<lparr>sent := Ended\<rparr>"

definition setHeader :: "jsstring \<Rightarrow> jsstring \<Rightarrow> response \<Rightarrow> response" where
  "setHeader k v res = res\<lparr>headers := (headers res)(k \<mapsto> v)\<rparr>"

section \<open>Health check\<close>

definition handleHealth :: "response \<Rightarrow> response" where
  "handleHealth res = json (JObj [(S ''status'', JStr (S ''ok''))]) (status 200 res)"

section \<open>Ingestion\<close>

text \<open>\<^verbatim>\<open>Date.now().toString()\<close>: the decimal digits of the clock reading.\<close>

definition digit :: "nat \<Rightarrow> 16 word" where
  "digit d = of_nat (48 + d)"

function toString_nat :: "nat \<Rightarrow> jsstring" where
  "toString_nat n =
     (if n < 10 then [digit n] else toString_nat (n div 10) @ [digit (n mod 10)])"
  by pat_completeness auto
termination
  by (relation "measure (\<lambda>n. n)") auto

declare toString_nat.simps [simp del]

text \<open>
  The log line of \<^verbatim>\<open>handleEmbeddings\<close> converts \<^verbatim>\<open>text.length\<close> and, when \<^verbatim>\<open>chunkId\<close>
  is truthy, \<^verbatim>\<open>chunkId\<close> to strings. What is printed is not modelled, the conversion's
  TypeError is.
\<close>

definition log_processing :: "jsval \<Rightarrow> jsval \<Rightarrow> error + unit" where
  "log_processing text chunkId =
     (case template_literal (js_length text) of
        Inl err \<Rightarrow> Inl err
      | Inr _ \<Rightarrow> if truthy chunkId then template_literal chunkId else Inr ())"

text \<open>\<^verbatim>\<open>text.length > 100 ? text.substring(0, 100) + '...' : text\<close>\<close>

definition preview :: "env \<Rightarrow> jsval \<Rightarrow> error + jsval" where
  "preview e text =
     (case js_gt e (js_length text) 100 of
        Inl err \<Rightarrow> Inl err
      | Inr longer \<Rightarrow>
          if longer then
            (case text of
               JStr s \<Rightarrow> Inr (JStr (take 100 s @ S ''...''))
             | _ \<Rightarrow> Inl (TypeError (S ''text.substring is not a function'')))
          else Inr text)"

text \<open>The \<^verbatim>\<open>catch\<close> block of \<^verbatim>\<open>handleEmbeddings\<close>.\<close>

definition embeddings_catch :: "error \<Rightarrow> response \<Rightarrow> response" where
  "embeddings_catch err res = json (JObj [(S ''error'', JStr (message err))]) (status 500 res)"

text \<open>
  The \<^verbatim>\<open>try\<close> block of \<^verbatim>\<open>handleEmbeddings\<close> after \<^verbatim>\<open>initClients\<close> has returned: the
  response it sends or the error it throws, with the provider calls made.
\<close>

definition embeddings_try ::
  "env \<Rightarrow> state \<Rightarrow> jsval \<Rightarrow> response \<Rightarrow> (error + response) \<times> call list" where
  "embeddings_try e s req_body res =
     (case destructure2 req_body (S ''text'') (S ''chunkId'') of
        Inl err \<Rightarrow> (Inl err, [])
      | Inr (text, chunkId) \<Rightarrow>
          if \<not> truthy text then
            (Inr (json (JObj [(S ''error'', JStr (S ''Text content is required''))])
                    (status 400 res)), [])
          else
            (case log_processing text chunkId of
               Inl err \<Rightarrow> (Inl err, [])
             | Inr _ \<Rightarrow>
                 let c1 = EmbeddingsCreate (S ''text-embedding-3-small'') text in
                 (case embeddings_create e (S ''text-embedding-3-small'') text of
                    Inl err \<Rightarrow> (Inl err, [c1])
                  | Inr embedding \<Rightarrow>
                      let id = (if truthy chunkId then chunkId
                                else JStr (toString_nat (Date_now e)));
                          vectorData =
                            \<lparr>vr_id = id, vr_values = embedding, vr_metadata_text = text\<rparr>
                      in
                      (case pineconeIndex s of
                         None \<Rightarrow>
                           (Inl (TypeError
                              (S ''Cannot read properties of undefined (reading 'upsert')'')),
                            [c1])
                       | Some ix \<Rightarrow>
                           let c2 = Upsert ix vectorData in
                           (case upsert e ix vectorData of
                              Inl err \<Rightarrow> (Inl err, [c1, c2])
                            | Inr _ \<Rightarrow>
                                (case preview e text of
                                   Inl err \<Rightarrow> (Inl err, [c1, c2])
                                 | Inr p \<Rightarrow>
                                     (Inr (json (JObj [(S ''success'', JBool True),
                                                       (S ''id'', id),
                                                       (S ''text'', p)])
                                             (status 201 res)),
                                      [c1, c2])))))))"

text \<open>
  \<^verbatim>\<open>handleEmbeddings\<close>: the response, the module state afterwards and the provider
  calls made, those of \<^verbatim>\<open>initClients\<close> first.
\<close>

definition handleEmbeddings ::
  "env \<Rightarrow> state \<Rightarrow> jsval \<Rightarrow> response \<Rightarrow> response \<times> state \<times> call list" where
  "handleEmbeddings e s req_body res =
     (case initClients e s of
        (Inl err, s', cs) \<Rightarrow> (embeddings_catch err res, s', cs)
      | (Inr _, s', cs) \<Rightarrow>
          (case embeddings_try e s' req_body res of
             (Inl err, cs') \<Rightarrow> (embeddings_catch err res, s', cs @ cs')
           | (Inr res', cs') \<Rightarrow> (res', s', cs @ cs')))"

section \<open>Question answering\<close>

text \<open>The fixed refusal sentence, as the specification gives it.\<close>

definition refusal_sentence :: jsstring where
  "refusal_sentence = S ''I'm sorry, I don't know.''"

text \<open>
  The two system prompts, up to the interpolated context. The source file holds the
  three characters U+00E2, U+20AC, U+201D after \<^verbatim>\<open>block\<close>.
\<close>

definition strict_instructions :: jsstring where
  "strict_instructions =
     S ''You are a precise, context-driven assistant. '' @ [0x0A] @
     S ''            - You must answer using only the provided \"Context\" block'' @
       [0xE2, 0x20AC, 0x201D] @ S ''do not draw on any outside knowledge. '' @ [0x0A] @
     S ''            - If the user's question uses different wording than the context, mentally paraphrase or expand synonyms to find the matching passage. '' @ [0x0A] @
     S ''            - If the answer cannot be found in the context, reply: \"I'm sorry, I don't know.\" '' @ [0x0A] @
     S ''            - Keep your answer as concise as possible.'' @ [0x0A] @
     S ''            '' @ [0x0A] @
     S ''            Context: ''"

definition lenient_instructions :: jsstring where
  "lenient_instructions =
     S ''Answer the question based on the provided context. Keep your answer concise.'' @ [0x0A] @
     S ''              '' @ [0x0A] @
     S ''              Context: ''"

text \<open>
  What the specification says of the strict variant, stated on a prompt and the context it
  was built for and not on the program's literal. The prompt is instructions followed by
  the context. The instructions end with the label of the context and tell the model to
  answer using only the provided context and no outside knowledge, to resolve paraphrases
  and synonyms against the context, to reply with the refusal sentence when the answer is
  not in the context, and to keep the answer concise.
\<close>

definition ends_with :: "'a list \<Rightarrow> 'a list \<Rightarrow> bool" where
  "ends_with s suf = starts_with (rev s) (rev suf)"

definition spec_answer_only_from_context :: jsstring where
  "spec_answer_only_from_context =
     S ''You must answer using only the provided \"Context\" block''"

definition spec_no_outside_knowledge :: jsstring where
  "spec_no_outside_knowledge = S ''do not draw on any outside knowledge''"

definition spec_resolve_paraphrases :: jsstring where
  "spec_resolve_paraphrases =
     S ''mentally paraphrase or expand synonyms to find the matching passage''"

definition spec_refuse_when_absent :: jsstring where
  "spec_refuse_when_absent =
     S ''If the answer cannot be found in the context, reply: \"'' @ refusal_sentence @ S ''\"''"

definition spec_concise :: jsstring where
  "spec_concise = S ''Keep your answer as concise as possible''"

definition spec_strict_prompt :: "jsstring \<Rightarrow> jsstring \<Rightarrow> bool" where
  "spec_strict_prompt prompt context =
     (let instructions = take (length prompt - length context) prompt
      in prompt = instructions @ context \<and>
         ends_with instructions (S ''Context: '') \<and>
         includes_str instructions spec_answer_only_from_context \<and>
         includes_str instructions spec_no_outside_knowledge \<and>
         includes_str instructions spec_resolve_paraphrases \<and>
         includes_str instructions spec_refuse_when_absent \<and>
         includes_str instructions spec_concise)"

definition completion_request :: "env \<Rightarrow> jsstring \<Rightarrow> jsval \<Rightarrow> chat_request" where
  "completion_request e system question =
     \<lparr>model = or_default (OPENAI_MODEL e) (S ''gpt-3.5-turbo''),
      system_content = system, user_content = question,
      temperature = 7 / 10, max_tokens = 500\<rparr>"

text \<open>
  \<^verbatim>\<open>openai.chat.completions.create(...)\<close> followed by \<^verbatim>\<open>res.json({question, answer})\<close>,
  the part the two answering branches share.
\<close>

definition answer_with ::
  "env \<Rightarrow> jsstring \<Rightarrow> jsval \<Rightarrow> response \<Rightarrow> (error + response) \<times> call list" where
  "answer_with e system question res =
     (let c = ChatCreate (completion_request e system question) in
      case chat_completions_create e (completion_request e system question) of
        Inl err \<Rightarrow> (Inl err, [c])
      | Inr content \<Rightarrow>
          (Inr (json (JObj [(S ''question'', question), (S ''answer'', JStr content)]) res),
           [c]))"

definition not_found :: "jsval \<Rightarrow> response \<Rightarrow> response" where
  "not_found question res =
     json (JObj [(S ''error'', JStr (S ''No relevant context found'')),
                 (S ''question'', question)])
       (status 404 res)"

text \<open>
  The log line of \<^verbatim>\<open>handleAsk\<close> converts \<^verbatim>\<open>question\<close> and \<^verbatim>\<open>documentID\<close> to strings
  before either is validated.
\<close>

definition log_received :: "jsval \<Rightarrow> jsval \<Rightarrow> error + unit" where
  "log_received question documentID =
     (case template_literal question of
        Inl err \<Rightarrow> Inl err
      | Inr _ \<Rightarrow> template_literal documentID)"

text \<open>
  What \<^verbatim>\<open>handleAsk\<close> does with the matches of the similarity search: the exact id
  first, otherwise the first match if it scores at least 0.5, otherwise 404.
\<close>

definition select_and_answer ::
  "env \<Rightarrow> jsval \<Rightarrow> jsval \<Rightarrow> match list \<Rightarrow> response \<Rightarrow> (error + response) \<times> call list" where
  "select_and_answer e question documentID matches res =
     (if length matches > 0 then
        (case find (\<lambda>m. JStr (match_id m) = documentID) matches of
           Some exactMatch \<Rightarrow>
             answer_with e (strict_instructions @ metadata_text exactMatch) question res
         | None \<Rightarrow>
             (case matches of
                [] \<Rightarrow>
                  (Inl (TypeError (S ''Cannot read properties of undefined (reading 'score')'')),
                   [])
              | bestMatch # _ \<Rightarrow>
                  if score bestMatch \<ge> 1 / 2 then
                    answer_with e (lenient_instructions @ metadata_text bestMatch) question res
                  else (Inr (not_found question res), [])))
      else (Inr (not_found question res), []))"

definition ask_catch :: "error \<Rightarrow> response \<Rightarrow> response" where
  "ask_catch err res =
     json (JObj [(S ''error'', JStr (S ''Failed to process question'')),
                 (S ''details'', JStr (message err))])
       (status 500 res)"

definition ask_try ::
  "env \<Rightarrow> state \<Rightarrow> jsval \<Rightarrow> response \<Rightarrow> (error + response) \<times> call list" where
  "ask_try e s req_body res =
     (case destructure2 req_body (S ''question'') (S ''documentID'') of
        Inl err \<Rightarrow> (Inl err, [])
      | Inr (question, documentID) \<Rightarrow>
          (case log_received question documentID of
             Inl err \<Rightarrow> (Inl err, [])
           | Inr _ \<Rightarrow>
               if \<not> truthy question \<or> \<not> is_string question then
                 (Inr (json (JObj [(S ''error'',
                                    JStr (S ''Valid question string is required''))])
                         (status 400 res)), [])
               else if \<not> truthy documentID then
                 (Inr (json (JObj [(S ''error'', JStr (S ''Document ID is required''))])
                         (status 400 res)), [])
               else
                 let c1 = EmbeddingsCreate (S ''text-embedding-3-small'') question in
                 (case embeddings_create e (S ''text-embedding-3-small'') question of
                    Inl err \<Rightarrow> (Inl err, [c1])
                  | Inr questionEmbedding \<Rightarrow>
                      (case pineconeIndex s of
                         None \<Rightarrow>
                           (Inl (TypeError
                              (S ''Cannot read properties of undefined (reading 'query')'')),
                            [c1])
                       | Some ix \<Rightarrow>
                           let c2 = Query ix questionEmbedding 5 True in
                           (case query e ix questionEmbedding 5 True of
                              Inl err \<Rightarrow> (Inl err, [c1, c2])
                            | Inr matches \<Rightarrow>
                                (case select_and_answer e question documentID matches res of
                                   (r, cs) \<Rightarrow> (r, [c1, c2] @ cs)))))))"

definition handleAsk ::
  "env \<Rightarrow> state \<Rightarrow> jsval \<Rightarrow> response \<Rightarrow> response \<times> state \<times> call list" where
  "handleAsk e s req_body res =
     (case initClients e s of
        (Inl err, s', cs) \<Rightarrow> (ask_catch err res, s', cs)
      | (Inr _, s', cs) \<Rightarrow>
          (case ask_try e s' req_body res of
             (Inl err, cs') \<Rightarrow> (ask_catch err res, s', cs @ cs')
           | (Inr res', cs') \<Rightarrow> (res', s', cs @ cs')))"

section \<open>Cross-origin headers and routing\<close>

text \<open>
  What the handler reads of a request. \<^verbatim>\<open>req.headers.host\<close> and
  \<^verbatim>\<open>req.headers.origin\<close> are strings or undefined.
\<close>

record request =
  req_method :: jsstring
  url :: jsstring
  host :: "jsstring option"
  origin :: "jsstring option"
  body :: jsval

definition ACAO :: jsstring where
  "ACAO = S ''Access-Control-Allow-Origin''"

definition ACAC :: jsstring where
  "ACAC = S ''Access-Control-Allow-Credentials''"

definition ACAM :: jsstring where
  "ACAM = S ''Access-Control-Allow-Methods''"

definition ACAH :: jsstring where
  "ACAH = S ''Access-Control-Allow-Headers''"

definition allowed_headers :: jsstring where
  "allowed_headers =
     S ''X-CSRF-Token, X-Requested-With, Accept, Accept-Version, Content-Length, Content-MD5, Content-Type, Date, X-Api-Version, Authorization''"

text \<open>\<^verbatim>\<open>setCorsHeaders\<close>; \<^verbatim>\<open>res.req\<close> is the request.\<close>

definition setCorsHeaders :: "env \<Rightarrow> request \<Rightarrow> response \<Rightarrow> response" where
  "setCorsHeaders e req res =
     (let allowedOrigin = or_default (FRONTEND_URL e) (S ''*'');
          res1 =
            (if (case origin req of
                   None \<Rightarrow> False
                 | Some ogn \<Rightarrow>
                     ogn \<noteq> [] \<and>
                     (includes_str ogn (S ''localhost'') \<or>
                      includes_str ogn (S ''127.0.0.1'') \<or>
                      allowedOrigin = S ''*''))
             then setHeader ACAO (the (origin req)) res
             else if allowedOrigin \<noteq> S ''*'' then setHeader ACAO allowedOrigin res
             else setHeader ACAO (S ''*'') res)
      in setHeader ACAH allowed_headers
           (setHeader ACAM (S ''GET,OPTIONS,PATCH,DELETE,POST,PUT'')
              (setHeader ACAC (S ''true'') res1)))"

text \<open>\<^verbatim>\<open>url.pathname.replace(/^\/api/, '') || '/'\<close>\<close>

definition normalize_path :: "jsstring \<Rightarrow> jsstring" where
  "normalize_path pathname =
     (let p = (if starts_with pathname (S ''/api'') then drop 4 pathname else pathname)
      in if p = [] then S ''/'' else p)"

definition method_not_allowed :: "response \<Rightarrow> response" where
  "method_not_allowed res =
     json (JObj [(S ''error'', JStr (S ''Method not allowed''))]) (status 405 res)"

text \<open>The \<^verbatim>\<open>switch\<close> of the handler on the normalised path.\<close>

definition route ::
  "env \<Rightarrow> state \<Rightarrow> request \<Rightarrow> jsstring \<Rightarrow> response \<Rightarrow> response \<times> state \<times> call list" where
  "route e s req path res =
     (if path = S ''/'' \<or> path = S ''/health'' then (handleHealth res, s, [])
      else if path = S ''/embeddings'' then
        (if req_method req \<noteq> S ''POST'' then (method_not_allowed res, s, [])
         else handleEmbeddings e s (body req) res)
      else if path = S ''/ask'' then
        (if req_method req \<noteq> S ''POST'' then (method_not_allowed res, s, [])
         else handleAsk e s (body req) res)
      else (json (JObj [(S ''error'', JStr (S ''Not found''))]) (status 404 res), s, []))"

text \<open>
  The exported handler. The first component is the error the returned promise rejects
  with, which only the URL constructor can raise.
\<close>

definition handler ::
  "env \<Rightarrow> state \<Rightarrow> request \<Rightarrow> response \<Rightarrow> error option \<times> response \<times> state \<times> call list" where
  "handler e s req res =
     (let res1 = setCorsHeaders e req res in
      if req_method req = S ''OPTIONS'' then (None, end_response (status 200 res1), s, [])
      else
        (case URL_pathname e (url req) (S ''http://'' @ or_default (host req) (S ''localhost'')) of
           Inl err \<Rightarrow> (Some err, res1, s, [])
         | Inr pathname \<Rightarrow>
             (case route e s req (normalize_path pathname) res1 of
                (res2, s', cs) \<Rightarrow> (None, res2, s', cs))))"

section \<open>Test doubles\<close>

text \<open>
  Collaborators for concrete runs: every provider call succeeds, the collection exists,
  the similarity search returns two matches, the chat model echoes the system prompt it
  received, and the URL parser cuts the query and the fragment off a path.
\<close>

definition stub_matches :: "match list" where
  "stub_matches =
     [\<lparr>match_id = S ''doc1'', score = 9 / 10, metadata_text = S ''The sky is blue.''\<rparr>,
      \<lparr>match_id = S ''doc2'', score = 3 / 10, metadata_text = S ''Grass is green.''\<rparr>]"

definition stub_env :: env where
  "stub_env =
     \<lparr>OPENAI_MODEL = None, PINECONE_INDEX_NAME = None, PINECONE_CLOUD = None,
      PINECONE_REGION = None, FRONTEND_URL = None,
      new_OpenAI = Inr (), new_Pinecone = Inr (),
      listIndexes = Inr (Some [S ''text-embeddings'']),
      createIndex = (\<lambda>spec. Inr ()),
      embeddings_create = (\<lambda>m input. Inr [1 / 4, 3 / 4]),
      upsert = (\<lambda>ix r. Inr ()),
      query = (\<lambda>ix v k md. Inr stub_matches),
      chat_completions_create = (\<lambda>r. Inr (system_content r)),
      Date_now = 1700000000000,
      gt_coerced = (\<lambda>v n. False),
      URL_pathname = (\<lambda>u base. Inr (takeWhile (\<lambda>c. c \<noteq> 0x3F \<and> c \<noteq> 0x23) u))\<rparr>"

definition ready_state :: state where
  "ready_state =
     \<lparr>openai = True, pineconeIndex = Some (S ''text-embeddings''), pineconeInitialized = True\<rparr>"

definition options_request :: request where
  "options_request =
     \<lparr>req_method = S ''OPTIONS'', url = S ''/api/ask'', host = Some (S ''example.com''),
      origin = Some (S ''https://app.example.com''), body = JUndefined\<rparr>"

definition evil_request :: request where
  "evil_request =
     \<lparr>req_method = S ''DELETE'', url = S ''/api/health?x=1'', host = None,
      origin = Some (S ''https://evil-localhost.example.com''), body = JUndefined\<rparr>"

text \<open>Bodies for \<^verbatim>\<open>/ask\<close> and a search result whose only match scores below 0.5.\<close>

definition sky_question :: jsval where
  "sky_question = JStr (S ''What color is the sky?'')"

definition ask_body :: "string \<Rightarrow> jsval" where
  "ask_body d = JObj [(S ''question'', sky_question), (S ''documentID'', JStr (S d))]"

definition weak_matches :: "match list" where
  "weak_matches =
     [\<lparr>match_id = S ''doc2'', score = 3 / 10, metadata_text = S ''Grass is green.''\<rparr>]"

text \<open>
  Bodies for \<^verbatim>\<open>/embeddings\<close>, a text of 149 characters, a store without the collection,
  a store that cannot be reached, and an \<^verbatim>\<open>/ask\<close> body whose question is an object.
\<close>

definition ingest_body :: "jsstring \<Rightarrow> jsval \<Rightarrow> jsval" where
  "ingest_body t c = JObj [(S ''text'', JStr t), (S ''chunkId'', c)]"

definition long_text :: jsstring where
  "long_text = S ''The sky is blue because air molecules scatter short wavelengths of sunlight far more strongly than long ones, an effect known as Rayleigh scattering.''"

definition no_collection_env :: env where
  "no_collection_env = stub_env\<lparr>listIndexes := Inr (Some [])\<rparr>"

definition unreachable_store_env :: env where
  "unreachable_store_env = stub_env\<lparr>listIndexes := Inl (ProviderError (S ''503''))\<rparr>"

definition object_question_body :: jsval where
  "object_question_body =
     JObj [(S ''question'', JObj [(S ''toString'', JNum 1)]), (S ''documentID'', JStr (S ''doc1''))]"

section \<open>Basic facts\<close>

text \<open>\<open>includes_str\<close> is containment as a contiguous run.\<close>

lemma starts_with_iff: "starts_with s sub \<longleftrightarrow> (\<exists>q. s = sub @ q)"
  by (induction s sub rule: starts_with.induct) auto

lemma includes_str_iff: "includes_str s sub \<longleftrightarrow> (\<exists>p q. s = p @ sub @ q)"
proof (induction s)
  case Nil
  then show ?case by auto
next
  case (Cons x xs)
  show ?case
  proof
    assume "includes_str (x # xs) sub"
    then consider "starts_with (x # xs) sub" | "includes_str xs sub" by auto
    then show "\<exists>p q. x # xs = p @ sub @ q"
    proof cases
      case 1
      then obtain q where "x # xs = sub @ q" by (auto simp: starts_with_iff)
      then have "x # xs = [] @ sub @ q" by simp
      then show ?thesis by blast
    next
      case 2
      then obtain p q where "xs = p @ sub @ q" using Cons.IH by blast
      then have "x # xs = (x # p) @ sub @ q" by simp
      then show ?thesis by blast
    qed
  next
    assume "\<exists>p q. x # xs = p @ sub @ q"
    then obtain p q where pq: "x # xs = p @ sub @ q" by blast
    show "includes_str (x # xs) sub"
    proof (cases p)
      case Nil
      then have "starts_with (x # xs) sub" using pq by (auto simp: starts_with_iff)
      then show ?thesis by simp
    next
      case (Cons y p')
      then have "xs = p' @ sub @ q" using pq by simp
      then have "includes_str xs sub" using Cons.IH by blast
      then show ?thesis by simp
    qed
  qed
qed

text \<open>Only \<^verbatim>\<open>setCorsHeaders\<close> writes headers.\<close>

lemma headers_status [simp]: "headers (status n res) = headers res"
  by (simp add: status_def)

lemma headers_json [simp]: "headers (json v res) = headers res"
  by (simp add: json_def)

lemma headers_end_response [simp]: "headers (end_response res) = headers res"
  by (simp add: end_response_def)

lemma headers_handleEmbeddings: "headers (fst (handleEmbeddings e s b res)) = headers res"
  unfolding handleEmbeddings_def embeddings_try_def embeddings_catch_def Let_def
  by (simp split: prod.splits sum.splits if_splits option.splits)

lemma headers_select_and_answer:
  "select_and_answer e q d ms res = (Inr res', cs) \<Longrightarrow> headers res' = headers res"
  unfolding select_and_answer_def answer_with_def not_found_def Let_def
  by (auto split: prod.splits sum.splits if_splits option.splits list.splits)

lemma headers_handleAsk: "headers (fst (handleAsk e s b res)) = headers res"
  unfolding handleAsk_def ask_try_def ask_catch_def Let_def
  by (auto split: prod.splits sum.splits if_splits option.splits dest: headers_select_and_answer)

lemma headers_route: "headers (fst (route e s req path res)) = headers res"
  unfolding route_def
  by (simp add: handleHealth_def method_not_allowed_def headers_handleEmbeddings headers_handleAsk)

lemma headers_handler:
  "headers (fst (snd (handler e s req res))) = headers (setCorsHeaders e req res)"
  unfolding handler_def Let_def
  using headers_route [of e s req _ "setCorsHeaders e req res"]
  by (auto split: sum.splits prod.splits)

text \<open>
  \<open>wf_state\<close> holds initially and every request keeps it; after a successful
  \<^verbatim>\<open>initClients\<close> the index handle is defined.
\<close>

lemma wf_initial_state: "wf_state initial_state"
  by (simp add: wf_state_def initial_state_def)

lemma wf_initClients: "wf_state s \<Longrightarrow> wf_state (fst (snd (initClients e s)))"
  unfolding initClients_def wf_state_def
  by (auto simp: Let_def split: sum.splits option.splits)

lemma initClients_ok_index:
  "wf_state s \<Longrightarrow> initClients e s = (Inr u, s', cs) \<Longrightarrow> \<exists>ix. pineconeIndex s' = Some ix"
  unfolding initClients_def wf_state_def
  by (auto simp: Let_def split: sum.splits option.splits if_splits)

lemma state_handleEmbeddings: "fst (snd (handleEmbeddings e s b res)) = fst (snd (initClients e s))"
  unfolding handleEmbeddings_def
  by (auto split: prod.splits sum.splits)

lemma state_handleAsk: "fst (snd (handleAsk e s b res)) = fst (snd (initClients e s))"
  unfolding handleAsk_def
  by (auto split: prod.splits sum.splits)

lemma wf_handler: "wf_state s \<Longrightarrow> wf_state (fst (snd (snd (handler e s req res))))"
  unfolding handler_def route_def Let_def
  using wf_initClients [of s e] state_handleEmbeddings [of e s] state_handleAsk [of e s]
  by (auto split: prod.splits sum.splits)

lemma strict_has_refusal: "includes_str strict_instructions refusal_sentence"
  by (simp add: strict_instructions_def refusal_sentence_def S_def)


text \<open>
  The strict instructions meet what the specification says of the strict variant. Each
  phrase lies inside one line of the prompt, so it is found among the characters of that
  line.
\<close>

lemma ends_with_iff: "ends_with s suf \<longleftrightarrow> (\<exists>p. s = p @ suf)"
proof -
  have "ends_with s suf \<longleftrightarrow> (\<exists>q. rev s = rev suf @ q)"
    by (simp add: ends_with_def starts_with_iff)
  also have "\<dots> \<longleftrightarrow> (\<exists>p. s = p @ suf)"
  proof
    assume "\<exists>q. rev s = rev suf @ q"
    then obtain q where "rev s = rev suf @ q" by blast
    then have "s = rev q @ suf" by (metis rev_append rev_rev_ident)
    then show "\<exists>p. s = p @ suf" by blast
  next
    assume "\<exists>p. s = p @ suf"
    then obtain p where "s = p @ suf" by blast
    then have "rev s = rev suf @ rev p" by simp
    then show "\<exists>q. rev s = rev suf @ q" by blast
  qed
  finally show ?thesis .
qed

lemma S_append: "S (a @ b) = S a @ S b"
  by (simp add: S_def)

lemma includes_str_append1: "includes_str a sub \<Longrightarrow> includes_str (a @ b) sub"
  by (auto simp: includes_str_iff) (metis append.assoc)

lemma includes_str_append2: "includes_str b sub \<Longrightarrow> includes_str (a @ b) sub"
  by (auto simp: includes_str_iff) (metis append.assoc)

lemma includes_str_S: "includes_str a sub \<Longrightarrow> includes_str (S a) (S sub)"
proof -
  assume "includes_str a sub"
  then obtain p q where "a = p @ sub @ q" by (auto simp: includes_str_iff)
  then have "S a = S p @ S sub @ S q" by (simp add: S_append)
  then show ?thesis unfolding includes_str_iff by blast
qed

lemma ends_with_append2: "ends_with b suf \<Longrightarrow> ends_with (a @ b) suf"
  by (auto simp: ends_with_iff)

lemma ends_with_S: "ends_with a suf \<Longrightarrow> ends_with (S a) (S suf)"
proof -
  assume "ends_with a suf"
  then obtain p where "a = p @ suf" by (auto simp: ends_with_iff)
  then have "S a = S p @ S suf" by (simp add: S_append)
  then show ?thesis unfolding ends_with_iff by blast
qed

lemma spec_refuse_when_absent_S:
  "spec_refuse_when_absent =
     S ''If the answer cannot be found in the context, reply: \"I'm sorry, I don't know.\"''"
  by (simp add: spec_refuse_when_absent_def refusal_sentence_def S_append [symmetric])

lemma strict_instructions_spec:
  "ends_with strict_instructions (S ''Context: '')"
  "includes_str strict_instructions spec_answer_only_from_context"
  "includes_str strict_instructions spec_no_outside_knowledge"
  "includes_str strict_instructions spec_resolve_paraphrases"
  "includes_str strict_instructions spec_refuse_when_absent"
  "includes_str strict_instructions spec_concise"
proof -
  show "ends_with strict_instructions (S ''Context: '')"
    unfolding strict_instructions_def
    by (intro ends_with_append2 ends_with_S) (simp add: ends_with_def)
  show "includes_str strict_instructions spec_answer_only_from_context"
    unfolding strict_instructions_def spec_answer_only_from_context_def
    by (rule includes_str_append2, rule includes_str_append2, rule includes_str_append1,
        rule includes_str_S) simp
  show "includes_str strict_instructions spec_no_outside_knowledge"
    unfolding strict_instructions_def spec_no_outside_knowledge_def
    by (rule includes_str_append2, rule includes_str_append2, rule includes_str_append2,
        rule includes_str_append2, rule includes_str_append1, rule includes_str_S) simp
  show "includes_str strict_instructions spec_resolve_paraphrases"
    unfolding strict_instructions_def spec_resolve_paraphrases_def
    by (rule includes_str_append2, rule includes_str_append2, rule includes_str_append2,
        rule includes_str_append2, rule includes_str_append2, rule includes_str_append2,
        rule includes_str_append1, rule includes_str_S) simp
  show "includes_str strict_instructions spec_refuse_when_absent"
    unfolding strict_instructions_def spec_refuse_when_absent_S
    by (rule includes_str_append2, rule includes_str_append2, rule includes_str_append2,
        rule includes_str_append2, rule includes_str_append2, rule includes_str_append2,
        rule includes_str_append2, rule includes_str_append2,
        rule includes_str_append1, rule includes_str_S) simp
  show "includes_str strict_instructions spec_concise"
    unfolding strict_instructions_def spec_concise_def
    by (rule includes_str_append2, rule includes_str_append2, rule includes_str_append2,
        rule includes_str_append2, rule includes_str_append2, rule includes_str_append2,
        rule includes_str_append2, rule includes_str_append2, rule includes_str_append2,
        rule includes_str_append2, rule includes_str_append1, rule includes_str_S) simp
qed

lemma strict_prompt_meets_spec: "spec_strict_prompt (strict_instructions @ context) context"
  by (simp add: spec_strict_prompt_def strict_instructions_spec)

lemma not_found_neq_answer:
  "not_found q res \<noteq> json (JObj [(S ''question'', q), (S ''answer'', JStr c)]) res"
proof -
  have "S ''error'' \<noteq> S ''question''" by (simp add: S_def)
  then have "sent (not_found q res) \<noteq> sent (json (JObj [(S ''question'', q), (S ''answer'', JStr c)]) res)"
    by (simp add: not_found_def json_def status_def)
  then show ?thesis by metis
qed

text \<open>
  The two outcomes of the selection: no chat call and the not-found response, or one chat
  call, for the prompt of the selected match, whose output is the answer.
\<close>

lemma select_and_answer_not_found:
  assumes "ms = [] \<or>
           (find (\<lambda>m. JStr (match_id m) = d) ms = None \<and> score (hd ms) < 1 / 2)"
  shows "select_and_answer e q d ms res = (Inr (not_found q res), [])"
  using assms
  by (cases ms) (auto simp: select_and_answer_def)

lemma select_and_answer_answers:
  assumes "ms \<noteq> []"
    and "find (\<lambda>m. JStr (match_id m) = d) ms \<noteq> None \<or> score (hd ms) \<ge> 1 / 2"
    and "chat_completions_create e
           (completion_request e
              (case find (\<lambda>m. JStr (match_id m) = d) ms of
                 Some x \<Rightarrow> strict_instructions @ metadata_text x
               | None \<Rightarrow> lenient_instructions @ metadata_text (hd ms)) q) = Inr content"
  shows "select_and_answer e q d ms res =
           (Inr (json (JObj [(S ''question'', q), (S ''answer'', JStr content)]) res),
            [ChatCreate
               (completion_request e
                  (case find (\<lambda>m. JStr (match_id m) = d) ms of
                     Some x \<Rightarrow> strict_instructions @ metadata_text x
                   | None \<Rightarrow> lenient_instructions @ metadata_text (hd ms)) q)])"
proof (cases ms)
  case Nil
  then show ?thesis using assms(1) by simp
next
  case (Cons m ms')
  show ?thesis
  proof (cases "find (\<lambda>m. JStr (match_id m) = d) ms")
    case None
    then have "score m \<ge> 1 / 2" using assms(2) Cons by simp
    then show ?thesis
      using None Cons assms(3)
      by (simp add: select_and_answer_def answer_with_def Let_def)
  next
    case (Some x)
    then show ?thesis
      using Cons assms(3)
      by (simp add: select_and_answer_def answer_with_def Let_def)
  qed
qed

text \<open>
  The first match is a highest-scoring one when the store returns the matches in
  descending order of score.
\<close>

lemma first_match_is_best:
  "sorted_wrt (\<lambda>a b. score b \<le> score a) (m # ms) \<Longrightarrow> \<forall>x \<in> set (m # ms). score x \<le> score m"
  by auto

text \<open>
  A valid question whose embedding and search succeed reaches the selection of the
  context; what \<^verbatim>\<open>handleAsk\<close> returns is then what the selection returns.
\<close>

lemma handleAsk_selection:
  assumes "initClients e s = (Inr u, s', cs0)"
    and "destructure2 b (S ''question'') (S ''documentID'') = Inr (question, documentID)"
    and "log_received question documentID = Inr ()"
    and "truthy question" and "is_string question" and "truthy documentID"
    and "embeddings_create e (S ''text-embedding-3-small'') question = Inr v"
    and "pineconeIndex s' = Some ix"
    and "query e ix v 5 True = Inr matches"
  shows "handleAsk e s b res =
           (case select_and_answer e question documentID matches res of
              (Inl err, cs) \<Rightarrow>
                (ask_catch err res, s',
                 cs0 @ [EmbeddingsCreate (S ''text-embedding-3-small'') question,
                        Query ix v 5 True] @ cs)
            | (Inr res', cs) \<Rightarrow>
                (res', s',
                 cs0 @ [EmbeddingsCreate (S ''text-embedding-3-small'') question,
                        Query ix v 5 True] @ cs))"
  using assms
  unfolding handleAsk_def ask_try_def Let_def
  by (simp split: prod.splits sum.splits)

text \<open>Facts about the test doubles.\<close>

lemma wf_ready_state: "wf_state ready_state"
  by (simp add: wf_state_def ready_state_def)

lemma initClients_ready: "initClients e ready_state = (Inr (), ready_state, [])"
  by (simp add: initClients_def ready_state_def Let_def)

lemma destructure2_ask_body:
  "destructure2 (ask_body d) (S ''question'') (S ''documentID'') = Inr (sky_question, JStr (S d))"
  by (simp add: ask_body_def S_def)

lemma log_received_strings: "log_received sky_question (JStr d) = Inr ()"
  by (simp add: log_received_def template_literal_def sky_question_def)

lemma sky_question_valid: "truthy sky_question" "is_string sky_question"
  by (simp_all add: sky_question_def S_def)

text \<open>
  \<^verbatim>\<open>initClients\<close> calls nothing but the listing and the creation of the collection, and
  nothing once the flag is set.
\<close>

lemma initClients_calls:
  "initClients e s = (r, s', cs) \<Longrightarrow>
     set cs \<subseteq> {ListIndexes, CreateIndex (new_index_spec e)} \<and>
     (pineconeInitialized s \<longrightarrow> cs = [])"
  unfolding initClients_def
  by (auto simp: Let_def split: sum.splits if_splits option.splits)

lemma toString_nat_example: "toString_nat 1700000000000 = S ''1700000000000''"
  by (simp add: toString_nat.simps digit_def S_def)

text \<open>
  Destructuring, the preview, and the shape of every 201 response of
  \<^verbatim>\<open>handleEmbeddings\<close>.
\<close>

lemma destructure2_Inr:
  "destructure2 b k1 k2 = Inr (x, y) \<Longrightarrow>
     b \<noteq> JUndefined \<and> b \<noteq> JNull \<and> x = own_prop b k1 \<and> y = own_prop b k2"
  by (cases b) auto

lemma destructure2_defined:
  "b \<noteq> JUndefined \<Longrightarrow> b \<noteq> JNull \<Longrightarrow>
     destructure2 b k1 k2 = Inr (own_prop b k1, own_prop b k2)"
  by (cases b) auto

lemma preview_string:
  "preview e (JStr s) = Inr (JStr (if length s \<le> 100 then s else take 100 s @ S ''...''))"
proof -
  have "((100::rat) < of_nat (length s)) = (100 < length s)"
    by (metis of_nat_less_iff of_nat_numeral)
  then show ?thesis
    by (auto simp: preview_def)
qed

lemma preview_not_string:
  "\<not> is_string t \<Longrightarrow> preview e t = Inr p \<Longrightarrow> p = t"
  unfolding preview_def
  by (cases t) (auto split: sum.splits if_splits)

lemma handleEmbeddings_created:
  assumes "statusCode (fst (handleEmbeddings e s b res)) = 201"
  shows "b \<noteq> JUndefined \<and> b \<noteq> JNull \<and> truthy (own_prop b (S ''text'')) \<and>
         (\<exists>p. preview e (own_prop b (S ''text'')) = Inr p \<and>
              fst (handleEmbeddings e s b res) =
                json (JObj [(S ''success'', JBool True),
                            (S ''id'',
                             if truthy (own_prop b (S ''chunkId'')) then own_prop b (S ''chunkId'')
                             else JStr (toString_nat (Date_now e))),
                            (S ''text'', p)])
                  (status 201 res))"
proof -
  obtain r s' cs where init: "initClients e s = (r, s', cs)"
    by (cases "initClients e s") auto
  show ?thesis
  proof (cases "destructure2 b (S ''text'') (S ''chunkId'')")
    case (Inl err)
    then have "statusCode (fst (handleEmbeddings e s b res)) = 500"
      using init
      by (auto simp: handleEmbeddings_def embeddings_try_def embeddings_catch_def
            status_def json_def split: sum.splits)
    then show ?thesis using assms by simp
  next
    case (Inr tc)
    obtain t c where tc: "tc = (t, c)" by (cases tc) auto
    from Inr tc have d: "destructure2 b (S ''text'') (S ''chunkId'') = Inr (t, c)"
      by simp
    note props = destructure2_Inr [OF d]
    show ?thesis
      using assms init d props
      unfolding handleEmbeddings_def embeddings_try_def embeddings_catch_def Let_def
      by (auto simp: status_def json_def split: sum.splits if_splits option.splits)
  qed
qed

lemma handleEmbeddings_stub:
  "t \<noteq> [] \<Longrightarrow>
   handleEmbeddings stub_env ready_state (ingest_body t c) new_response =
     (case (if truthy c then template_literal c else Inr ()) of
        Inl err \<Rightarrow> (embeddings_catch err new_response, ready_state, [])
      | Inr _ \<Rightarrow>
          (let id = (if truthy c then c else JStr (S ''1700000000000''));
               r = \<lparr>vr_id = id, vr_values = [1 / 4, 3 / 4], vr_metadata_text = JStr t\<rparr>
           in (json (JObj [(S ''success'', JBool True), (S ''id'', id),
                           (S ''text'',
                            JStr (if length t \<le> 100 then t else take 100 t @ S ''...''))])
                 (status 201 new_response),
               ready_state,
               [EmbeddingsCreate (S ''text-embedding-3-small'') (JStr t),
                Upsert (S ''text-embeddings'') r])))"
proof -
  have k: "S ''text'' \<noteq> S ''chunkId''" by (simp add: S_def)
  have d: "destructure2 (ingest_body t c) (S ''text'') (S ''chunkId'') = Inr (JStr t, c)"
    using k by (simp add: ingest_body_def)
  assume "t \<noteq> []"
  then show ?thesis
    unfolding handleEmbeddings_def embeddings_try_def initClients_ready
    by (simp add: d log_processing_def template_literal_def preview_string
          toString_nat_example Let_def stub_env_def ready_state_def split: sum.splits)
qed

text \<open>
  The comment above the id's computation says it generates a unique id. The generated id is
  the clock reading alone: two requests without \<^verbatim>\<open>chunkId\<close> that read the same
  millisecond get the same id.
\<close>

lemma same_clock_reading_same_id:
  "sent (fst (handleEmbeddings stub_env ready_state
                (ingest_body (S ''The sky is blue.'') JUndefined) new_response)) =
     Json (JObj [(S ''success'', JBool True), (S ''id'', JStr (S ''1700000000000'')),
                 (S ''text'', JStr (S ''The sky is blue.''))]) \<and>
   sent (fst (handleEmbeddings stub_env ready_state
                (ingest_body (S ''Grass is green.'') JUndefined) new_response)) =
     Json (JObj [(S ''success'', JBool True), (S ''id'', JStr (S ''1700000000000'')),
                 (S ''text'', JStr (S ''Grass is green.''))])"
proof -
  have ne: "S ''The sky is blue.'' \<noteq> []" "S ''Grass is green.'' \<noteq> []"
    by (simp_all add: S_def)
  have l: "length (S ''The sky is blue.'') \<le> 100" "length (S ''Grass is green.'') \<le> 100"
    by (simp_all add: S_def)
  show ?thesis
    using l
    by (simp add: handleEmbeddings_stub [OF ne(1)] handleEmbeddings_stub [OF ne(2)]
          status_def json_def Let_def)
qed

section \<open>Client initialisation: failure leaves the flag unset\<close>

text \<open>
  C7. When \<^verbatim>\<open>initClients\<close> runs with the flag unset and listing the collections fails, or
  the collection is absent and creating it fails, then that error is what \<^verbatim>\<open>initClients\<close>
  throws, at least one provider call was made, and both handlers answer with their
  \<^verbatim>\<open>catch\<close> block. Afterwards \<^verbatim>\<open>pineconeInitialized\<close> is still false and
  \<^verbatim>\<open>pineconeIndex\<close> is what it was; the one module variable that may have changed is
  \<^verbatim>\<open>openai\<close>, assigned before the \<^verbatim>\<open>try\<close> block. The next call, whatever the
  collaborators then do, lists the collections again as soon as the store client is
  constructed.
\<close>

theorem initClients_failure_not_marked_complete:
  assumes "\<not> pineconeInitialized s"
    and "(if \<not> openai s then new_OpenAI e else Inr ()) = Inr ()"
    and "new_Pinecone e = Inr ()"
    and "listIndexes e = Inl err \<or>
         (\<exists>indexList. listIndexes e = Inr indexList \<and>
            indexName e \<notin> set (case indexList of Some ns \<Rightarrow> ns | None \<Rightarrow> []) \<and>
            createIndex e (new_index_spec e) = Inl err)"
  shows "\<exists>cs. initClients e s = (Inl err, s\<lparr>openai := True\<rparr>, cs) \<and> cs \<noteq> [] \<and>
           handleEmbeddings e s b res = (embeddings_catch err res, s\<lparr>openai := True\<rparr>, cs) \<and>
           handleAsk e s b res = (ask_catch err res, s\<lparr>openai := True\<rparr>, cs) \<and>
           \<not> pineconeInitialized (s\<lparr>openai := True\<rparr>) \<and>
           pineconeIndex (s\<lparr>openai := True\<rparr>) = pineconeIndex s \<and>
           (new_Pinecone e' = Inr () \<longrightarrow>
              (\<exists>cs'. snd (snd (initClients e' (s\<lparr>openai := True\<rparr>))) = ListIndexes # cs'))"
  using assms unfolding initClients_def handleEmbeddings_def handleAsk_def
  by (auto simp: Let_def split: sum.splits if_splits option.splits)

theorem initClients_failure_not_marked_complete_witness:
  "\<exists>cs. initClients (stub_env\<lparr>listIndexes := Inl (ProviderError (S ''503''))\<rparr>) initial_state =
          (Inl (ProviderError (S ''503'')), initial_state\<lparr>openai := True\<rparr>, cs) \<and>
        cs \<noteq> [] \<and>
        (new_Pinecone stub_env = Inr () \<longrightarrow>
           (\<exists>cs'. snd (snd (initClients stub_env (initial_state\<lparr>openai := True\<rparr>))) =
                  ListIndexes # cs'))"
proof -
  let ?e = "stub_env\<lparr>listIndexes := Inl (ProviderError (S ''503''))\<rparr>"
  have h1: "\<not> pineconeInitialized initial_state"
    by (simp add: initial_state_def)
  have h2: "(if \<not> openai initial_state then new_OpenAI ?e else Inr ()) = Inr ()"
    by (simp add: initial_state_def stub_env_def)
  have h3: "new_Pinecone ?e = Inr ()"
    by (simp add: stub_env_def)
  have h4: "listIndexes ?e = Inl (ProviderError (S ''503'')) \<or>
         (\<exists>indexList. listIndexes ?e = Inr indexList \<and>
            indexName ?e \<notin> set (case indexList of Some ns \<Rightarrow> ns | None \<Rightarrow> []) \<and>
            createIndex ?e (new_index_spec ?e) = Inl (ProviderError (S ''503'')))"
    by simp
  from initClients_failure_not_marked_complete [OF h1 h2 h3 h4, of JNull new_response stub_env]
  show ?thesis
    by blast
qed

section \<open>Cross-origin matching\<close>

text \<open>
  C10. The origin is matched by containment: when the \<^verbatim>\<open>Origin\<close> header contains
  \<^verbatim>\<open>localhost\<close> or \<^verbatim>\<open>127.0.0.1\<close> anywhere, \<^verbatim>\<open>Access-Control-Allow-Origin\<close> is that
  origin and \<^verbatim>\<open>Access-Control-Allow-Credentials\<close> is \<^verbatim>\<open>true\<close>, on the response
  \<^verbatim>\<open>setCorsHeaders\<close> leaves and on the one the handler ends with, whatever
  \<^verbatim>\<open>FRONTEND_URL\<close> is. The example is the origin
  \<^verbatim>\<open>https://evil-localhost.example.com\<close>.
\<close>

theorem cors_origin_substring_match:
  assumes "origin req = Some ogn"
    and "includes_str ogn (S ''localhost'') \<or> includes_str ogn (S ''127.0.0.1'')"
  shows "headers (setCorsHeaders e req res) ACAO = Some ogn \<and>
         headers (setCorsHeaders e req res) ACAC = Some (S ''true'') \<and>
         headers (fst (snd (handler e s req res))) ACAO = Some ogn \<and>
         headers (fst (snd (handler e s req res))) ACAC = Some (S ''true'')"
proof -
  have ne: "ogn \<noteq> []"
    using assms(2) by (auto simp: S_def)
  have distinct: "ACAO \<noteq> ACAC" "ACAO \<noteq> ACAM" "ACAO \<noteq> ACAH" "ACAC \<noteq> ACAM" "ACAC \<noteq> ACAH"
    by (simp_all add: ACAO_def ACAC_def ACAM_def ACAH_def S_def)
  have "headers (setCorsHeaders e req res) ACAO = Some ogn \<and>
        headers (setCorsHeaders e req res) ACAC = Some (S ''true'')"
    using assms ne distinct
    by (auto simp: setCorsHeaders_def Let_def setHeader_def)
  then show ?thesis
    by (simp add: headers_handler)
qed

theorem cors_origin_substring_match_witness:
  "headers (fst (snd (handler stub_env initial_state evil_request new_response))) ACAO =
     Some (S ''https://evil-localhost.example.com'') \<and>
   headers (fst (snd (handler stub_env initial_state evil_request new_response))) ACAC =
     Some (S ''true'')"
proof -
  have h1: "origin evil_request = Some (S ''https://evil-localhost.example.com'')"
    by (simp add: evil_request_def)
  have h2: "includes_str (S ''https://evil-localhost.example.com'') (S ''localhost'') \<or>
            includes_str (S ''https://evil-localhost.example.com'') (S ''127.0.0.1'')"
    by (simp add: S_def)
  from cors_origin_substring_match [OF h1 h2, of stub_env new_response initial_state]
  show ?thesis by blast
qed

section \<open>Validation\<close>

text \<open>
  C1, as the code has it. Both handlers call \<^verbatim>\<open>initClients\<close> before they look at the
  body. When \<^verbatim>\<open>initClients\<close> succeeds and the body is not null or undefined, an ingestion
  request whose \<^verbatim>\<open>text\<close> is missing or falsy is answered 400, and so is an answer request
  whose \<^verbatim>\<open>question\<close> is missing, empty or not a string or whose \<^verbatim>\<open>documentID\<close> is
  missing or falsy, provided the log line can convert both to strings. The provider calls
  made before that response are exactly those of \<^verbatim>\<open>initClients\<close>: listing and creating
  the collection at most, and none when the flag is already set. No embedding, upsert,
  search or chat call is made.
\<close>

theorem validation_follows_initialisation:
  assumes "initClients e s = (Inr u, s', cs)"
    and "b \<noteq> JUndefined" and "b \<noteq> JNull"
  shows "(\<not> truthy (own_prop b (S ''text'')) \<longrightarrow>
            handleEmbeddings e s b res =
              (json (JObj [(S ''error'', JStr (S ''Text content is required''))]) (status 400 res),
               s', cs)) \<and>
         (\<not> to_string_throws (own_prop b (S ''question'')) \<and>
          \<not> to_string_throws (own_prop b (S ''documentID'')) \<and>
          (\<not> truthy (own_prop b (S ''question'')) \<or>
           \<not> is_string (own_prop b (S ''question'')) \<or>
           \<not> truthy (own_prop b (S ''documentID''))) \<longrightarrow>
            (\<exists>m. handleAsk e s b res =
                   (json (JObj [(S ''error'', JStr m)]) (status 400 res), s', cs))) \<and>
         set cs \<subseteq> {ListIndexes, CreateIndex (new_index_spec e)} \<and>
         (pineconeInitialized s \<longrightarrow> cs = [])"
proof -
  note d1 = destructure2_defined [OF assms(2,3), of "S ''text''" "S ''chunkId''"]
  note d2 = destructure2_defined [OF assms(2,3), of "S ''question''" "S ''documentID''"]
  have ingest: "\<not> truthy (own_prop b (S ''text'')) \<longrightarrow>
            handleEmbeddings e s b res =
              (json (JObj [(S ''error'', JStr (S ''Text content is required''))]) (status 400 res),
               s', cs)"
    using assms(1) d1 by (simp add: handleEmbeddings_def embeddings_try_def)
  have ask: "\<not> to_string_throws (own_prop b (S ''question'')) \<and>
          \<not> to_string_throws (own_prop b (S ''documentID'')) \<and>
          (\<not> truthy (own_prop b (S ''question'')) \<or>
           \<not> is_string (own_prop b (S ''question'')) \<or>
           \<not> truthy (own_prop b (S ''documentID''))) \<longrightarrow>
            (\<exists>m. handleAsk e s b res =
                   (json (JObj [(S ''error'', JStr m)]) (status 400 res), s', cs))"
    using assms(1) d2
    by (auto simp: handleAsk_def ask_try_def log_received_def template_literal_def)
  show ?thesis
    using ingest ask initClients_calls [OF assms(1)] by blast
qed

theorem validation_follows_initialisation_witness:
  "handleEmbeddings stub_env ready_state (JObj []) new_response =
     (json (JObj [(S ''error'', JStr (S ''Text content is required''))]) (status 400 new_response),
      ready_state, []) \<and>
   (\<exists>m. handleAsk stub_env ready_state (JObj []) new_response =
          (json (JObj [(S ''error'', JStr m)]) (status 400 new_response), ready_state, []))"
proof -
  have h2: "JObj [] \<noteq> JUndefined" and h3: "JObj [] \<noteq> JNull" by simp_all
  have p: "own_prop (JObj []) (S ''text'') = JUndefined"
    "own_prop (JObj []) (S ''question'') = JUndefined"
    "own_prop (JObj []) (S ''documentID'') = JUndefined"
    by simp_all
  from validation_follows_initialisation [OF initClients_ready h2 h3, of stub_env new_response] p
  show ?thesis by simp
qed

text \<open>
  As stated, with a 400 and no provider call of any kind for every such request, C1 fails:
  in a fresh process the collections are listed (and here the collection is created) before
  the 400; when the listing fails the answer is 500; a null body is answered 500; and so is
  a question that is an object with an own \<^verbatim>\<open>toString\<close> property.
\<close>

theorem validation_first_counterexample:
  "handleEmbeddings no_collection_env initial_state (JObj []) new_response =
     (json (JObj [(S ''error'', JStr (S ''Text content is required''))]) (status 400 new_response),
      ready_state, [ListIndexes, CreateIndex (new_index_spec no_collection_env)]) \<and>
   statusCode (fst (handleEmbeddings unreachable_store_env initial_state (JObj []) new_response)) =
     500 \<and>
   statusCode (fst (handleEmbeddings stub_env ready_state JNull new_response)) = 500 \<and>
   \<not> is_string (own_prop object_question_body (S ''question'')) \<and>
   statusCode (fst (handleAsk stub_env ready_state object_question_body new_response)) = 500"
proof -
  have i1: "initClients no_collection_env initial_state =
              (Inr (), ready_state, [ListIndexes, CreateIndex (new_index_spec no_collection_env)])"
    by (simp add: initClients_def no_collection_env_def stub_env_def initial_state_def
          ready_state_def indexName_def Let_def)
  have i2: "initClients unreachable_store_env initial_state =
              (Inl (ProviderError (S ''503'')), initial_state\<lparr>openai := True\<rparr>, [ListIndexes])"
    by (simp add: initClients_def unreachable_store_env_def stub_env_def initial_state_def Let_def)
  have c1: "handleEmbeddings no_collection_env initial_state (JObj []) new_response =
     (json (JObj [(S ''error'', JStr (S ''Text content is required''))]) (status 400 new_response),
      ready_state, [ListIndexes, CreateIndex (new_index_spec no_collection_env)])"
    by (simp add: handleEmbeddings_def i1 embeddings_try_def)
  have c2: "statusCode (fst (handleEmbeddings unreachable_store_env initial_state (JObj [])
              new_response)) = 500"
    by (simp add: handleEmbeddings_def i2 embeddings_catch_def status_def json_def)
  have c3: "statusCode (fst (handleEmbeddings stub_env ready_state JNull new_response)) = 500"
    by (simp add: handleEmbeddings_def initClients_ready embeddings_try_def embeddings_catch_def
          status_def json_def)
  have k: "S ''question'' \<noteq> S ''documentID''" by (simp add: S_def)
  have q: "own_prop object_question_body (S ''question'') = JObj [(S ''toString'', JNum 1)]"
    by (simp add: object_question_body_def)
  have d: "destructure2 object_question_body (S ''question'') (S ''documentID'') =
             Inr (JObj [(S ''toString'', JNum 1)], JStr (S ''doc1''))"
    using k by (simp add: object_question_body_def)
  have c4: "statusCode (fst (handleAsk stub_env ready_state object_question_body new_response)) =
              500"
    by (simp add: handleAsk_def initClients_ready ask_try_def d log_received_def
          template_literal_def ask_catch_def status_def json_def)
  show ?thesis
    using c1 c2 c3 c4 q by simp
qed

section \<open>Ingestion results\<close>

text \<open>
  C5, as the code has it. In every 201 response of \<^verbatim>\<open>handleEmbeddings\<close> the id is
  \<^verbatim>\<open>chunkId\<close> when \<^verbatim>\<open>chunkId\<close> is truthy, and otherwise the decimal string of the clock
  reading in milliseconds.
\<close>

theorem id_is_truthy_chunkId_or_clock:
  assumes "statusCode (fst (handleEmbeddings e s b res)) = 201"
  shows "\<exists>p. sent (fst (handleEmbeddings e s b res)) =
              Json (JObj [(S ''success'', JBool True),
                          (S ''id'',
                           if truthy (own_prop b (S ''chunkId'')) then own_prop b (S ''chunkId'')
                           else JStr (toString_nat (Date_now e))),
                          (S ''text'', p)])"
  using handleEmbeddings_created [OF assms]
  by (auto simp: json_def)

theorem id_is_truthy_chunkId_or_clock_witness:
  "(\<exists>p. sent (fst (handleEmbeddings stub_env ready_state
                     (ingest_body (S ''The sky is blue.'') (JStr (S ''doc1''))) new_response)) =
          Json (JObj [(S ''success'', JBool True), (S ''id'', JStr (S ''doc1'')), (S ''text'', p)]))"
proof -
  let ?b = "ingest_body (S ''The sky is blue.'') (JStr (S ''doc1''))"
  have ne: "S ''The sky is blue.'' \<noteq> []" by (simp add: S_def)
  have t: "truthy (JStr (S ''doc1''))" by (simp add: S_def)
  have h: "statusCode (fst (handleEmbeddings stub_env ready_state ?b new_response)) = 201"
    using t
    by (simp add: handleEmbeddings_stub [OF ne] template_literal_def status_def json_def Let_def)
  have k: "S ''text'' \<noteq> S ''chunkId''" by (simp add: S_def)
  have c: "own_prop ?b (S ''chunkId'') = JStr (S ''doc1'')"
    using k by (simp add: ingest_body_def)
  from id_is_truthy_chunkId_or_clock [OF h] c t
  show ?thesis by simp
qed

text \<open>
  As stated, for every provided \<^verbatim>\<open>chunkId\<close>, C5 fails: a request that provides the
  empty string as \<^verbatim>\<open>chunkId\<close> succeeds and gets the clock's id.
\<close>

theorem empty_chunkId_counterexample:
  "statusCode (fst (handleEmbeddings stub_env ready_state
                      (ingest_body (S ''The sky is blue.'') (JStr [])) new_response)) = 201 \<and>
   own_prop (ingest_body (S ''The sky is blue.'') (JStr [])) (S ''chunkId'') = JStr [] \<and>
   sent (fst (handleEmbeddings stub_env ready_state
                (ingest_body (S ''The sky is blue.'') (JStr [])) new_response)) =
     Json (JObj [(S ''success'', JBool True), (S ''id'', JStr (S ''1700000000000'')),
                 (S ''text'', JStr (S ''The sky is blue.''))])"
proof -
  have ne: "S ''The sky is blue.'' \<noteq> []"
    by (simp add: S_def)
  have k: "S ''text'' \<noteq> S ''chunkId''" by (simp add: S_def)
  have l: "length (S ''The sky is blue.'') \<le> 100"
    by (simp add: S_def)
  have c: "own_prop (ingest_body (S ''The sky is blue.'') (JStr [])) (S ''chunkId'') = JStr []"
    using k by (simp add: ingest_body_def)
  show ?thesis
    using l c
    by (simp add: handleEmbeddings_stub [OF ne] status_def json_def Let_def)
qed

text \<open>
  C6. In every 201 response of \<^verbatim>\<open>handleEmbeddings\<close> the \<^verbatim>\<open>text\<close> field is the input
  text when that is a string of at most 100 code units, and its first 100 code units
  followed by \<^verbatim>\<open>...\<close> when it is a longer string. A text that is not a string is returned
  as it is.
\<close>

theorem preview_truncated_to_100:
  assumes "statusCode (fst (handleEmbeddings e s b res)) = 201"
  shows "\<exists>id p. sent (fst (handleEmbeddings e s b res)) =
                  Json (JObj [(S ''success'', JBool True), (S ''id'', id), (S ''text'', p)]) \<and>
                (case own_prop b (S ''text'') of
                   JStr t \<Rightarrow> p = JStr (if length t \<le> 100 then t else take 100 t @ S ''...'')
                 | v \<Rightarrow> p = v)"
proof -
  from handleEmbeddings_created [OF assms]
  obtain p where p: "preview e (own_prop b (S ''text'')) = Inr p"
    and r: "fst (handleEmbeddings e s b res) =
              json (JObj [(S ''success'', JBool True),
                          (S ''id'',
                           if truthy (own_prop b (S ''chunkId'')) then own_prop b (S ''chunkId'')
                           else JStr (toString_nat (Date_now e))),
                          (S ''text'', p)])
                (status 201 res)"
    by blast
  have "case own_prop b (S ''text'') of
          JStr t \<Rightarrow> p = JStr (if length t \<le> 100 then t else take 100 t @ S ''...'')
        | v \<Rightarrow> p = v"
  proof (cases "own_prop b (S ''text'')")
    case (JStr t)
    then show ?thesis using p preview_string [of e t] by simp
  qed (use p preview_not_string [of "own_prop b (S ''text'')" e p] in auto)
  then show ?thesis
    using r by (auto simp: json_def)
qed

theorem preview_truncated_to_100_witness:
  "\<exists>id p. sent (fst (handleEmbeddings stub_env ready_state (ingest_body long_text JUndefined)
                      new_response)) =
            Json (JObj [(S ''success'', JBool True), (S ''id'', id), (S ''text'', p)]) \<and>
          (case own_prop (ingest_body long_text JUndefined) (S ''text'') of
             JStr t \<Rightarrow> p = JStr (if length t \<le> 100 then t else take 100 t @ S ''...'')
           | v \<Rightarrow> p = v)"
proof -
  have ne: "long_text \<noteq> []" by (simp add: long_text_def S_def)
  have h: "statusCode (fst (handleEmbeddings stub_env ready_state
             (ingest_body long_text JUndefined) new_response)) = 201"
    by (simp add: handleEmbeddings_stub [OF ne] status_def json_def Let_def)
  from preview_truncated_to_100 [OF h]
  show ?thesis .
qed

section \<open>Answer resolution\<close>

text \<open>
  The three theorems below share their hypotheses: \<^verbatim>\<open>initClients\<close> succeeds and leaves
  an index handle (as it does from every reachable state, \<open>initClients_ok_index\<close>), the
  body is not null or undefined, the log line does not throw, \<^verbatim>\<open>question\<close> is a
  non-empty string and \<^verbatim>\<open>documentID\<close> is truthy (the request passes validation), and
  the embedding call and the similarity search succeed.

  C2. If moreover every chat completion succeeds, the response is the not-found one
  (status 404, body with the original question; not the \<^verbatim>\<open>catch\<close> block's 500) exactly
  when the search returned no match, or no match has the id \<^verbatim>\<open>documentID\<close> and the first
  match scores below 0.5; then no chat call is made. In every other case exactly one chat
  call follows the search, for the prompt of the selected match (strict for the match with
  the id, lenient for the first match otherwise), and the response is
  \<^verbatim>\<open>{question, answer}\<close> where the answer is what that call returned. The first match is
  the highest-scoring one whenever the store returns the matches in descending order of
  score.
\<close>

theorem not_found_exactly_when_no_usable_match:
  assumes "initClients e s = (Inr u, s', cs0)"
    and "destructure2 b (S ''question'') (S ''documentID'') = Inr (question, documentID)"
    and "log_received question documentID = Inr ()"
    and "truthy question" and "is_string question" and "truthy documentID"
    and "embeddings_create e (S ''text-embedding-3-small'') question = Inr v"
    and "pineconeIndex s' = Some ix"
    and "query e ix v 5 True = Inr matches"
    and "\<forall>r. \<exists>content. chat_completions_create e r = Inr content"
  shows "(fst (handleAsk e s b res) = not_found question res) =
           (matches = [] \<or>
            ((\<forall>m \<in> set matches. JStr (match_id m) \<noteq> documentID) \<and>
             score (hd matches) < 1 / 2)) \<and>
         (fst (handleAsk e s b res) = not_found question res \<longrightarrow>
            snd (snd (handleAsk e s b res)) =
              cs0 @ [EmbeddingsCreate (S ''text-embedding-3-small'') question,
                     Query ix v 5 True]) \<and>
         (fst (handleAsk e s b res) \<noteq> not_found question res \<longrightarrow>
            (\<exists>content.
               chat_completions_create e
                 (completion_request e
                    (case find (\<lambda>m. JStr (match_id m) = documentID) matches of
                       Some x \<Rightarrow> strict_instructions @ metadata_text x
                     | None \<Rightarrow> lenient_instructions @ metadata_text (hd matches))
                    question) = Inr content \<and>
               fst (handleAsk e s b res) =
                 json (JObj [(S ''question'', question), (S ''answer'', JStr content)]) res \<and>
               snd (snd (handleAsk e s b res)) =
                 cs0 @ [EmbeddingsCreate (S ''text-embedding-3-small'') question,
                        Query ix v 5 True,
                        ChatCreate
                          (completion_request e
                             (case find (\<lambda>m. JStr (match_id m) = documentID) matches of
                                Some x \<Rightarrow> strict_instructions @ metadata_text x
                              | None \<Rightarrow> lenient_instructions @ metadata_text (hd matches))
                             question)])) \<and>
         statusCode (not_found question res) = 404 \<and>
         sent (not_found question res) =
           Json (JObj [(S ''error'', JStr (S ''No relevant context found'')),
                       (S ''question'', question)]) \<and>
         (matches \<noteq> [] \<and> sorted_wrt (\<lambda>a b. score b \<le> score a) matches \<longrightarrow>
            (\<forall>x \<in> set matches. score x \<le> score (hd matches)))"
proof -
  let ?nf = "matches = [] \<or>
            ((\<forall>m \<in> set matches. JStr (match_id m) \<noteq> documentID) \<and>
             score (hd matches) < 1 / 2)"
  let ?rq = "completion_request e
               (case find (\<lambda>m. JStr (match_id m) = documentID) matches of
                  Some x \<Rightarrow> strict_instructions @ metadata_text x
                | None \<Rightarrow> lenient_instructions @ metadata_text (hd matches))
               question"
  let ?pre = "cs0 @ [EmbeddingsCreate (S ''text-embedding-3-small'') question, Query ix v 5 True]"
  note sel = handleAsk_selection [OF assms(1-9), of res]
  have none_iff: "(find (\<lambda>m. JStr (match_id m) = documentID) matches = None) =
                  (\<forall>m \<in> set matches. JStr (match_id m) \<noteq> documentID)"
    by (auto simp: find_None_iff)
  have best: "matches \<noteq> [] \<and> sorted_wrt (\<lambda>a b. score b \<le> score a) matches \<longrightarrow>
            (\<forall>x \<in> set matches. score x \<le> score (hd matches))"
    using first_match_is_best by (cases matches) auto
  have nf: "statusCode (not_found question res) = 404 \<and>
         sent (not_found question res) =
           Json (JObj [(S ''error'', JStr (S ''No relevant context found'')),
                       (S ''question'', question)])"
    by (simp add: not_found_def json_def status_def)
  show ?thesis
  proof (cases ?nf)
    case True
    then have "select_and_answer e question documentID matches res =
                 (Inr (not_found question res), [])"
      using select_and_answer_not_found [of matches documentID e question res] none_iff
      by blast
    then have r: "handleAsk e s b res = (not_found question res, s', ?pre)"
      using sel by simp
    show ?thesis
      using True r best nf by simp
  next
    case False
    then have ne: "matches \<noteq> []"
      and ok: "find (\<lambda>m. JStr (match_id m) = documentID) matches \<noteq> None \<or>
               score (hd matches) \<ge> 1 / 2"
      using none_iff by auto
    obtain content where c: "chat_completions_create e ?rq = Inr content"
      using assms(10) by blast
    have "select_and_answer e question documentID matches res =
            (Inr (json (JObj [(S ''question'', question), (S ''answer'', JStr content)]) res),
             [ChatCreate ?rq])"
      using select_and_answer_answers [OF ne ok c] .
    then have r: "handleAsk e s b res =
            (json (JObj [(S ''question'', question), (S ''answer'', JStr content)]) res, s',
             ?pre @ [ChatCreate ?rq])"
      using sel by simp
    have neq: "fst (handleAsk e s b res) \<noteq> not_found question res"
      using r not_found_neq_answer [of question res content] by simp
    have ans: "\<exists>content.
               chat_completions_create e ?rq = Inr content \<and>
               fst (handleAsk e s b res) =
                 json (JObj [(S ''question'', question), (S ''answer'', JStr content)]) res \<and>
               snd (snd (handleAsk e s b res)) = ?pre @ [ChatCreate ?rq]"
      using c r by auto
    show ?thesis
      using False neq ans best nf by simp
  qed
qed

theorem not_found_exactly_when_no_usable_match_witness:
  "fst (handleAsk (stub_env\<lparr>query := (\<lambda>ix v k md. Inr weak_matches)\<rparr>) ready_state
          (ask_body ''stale-id'') new_response) =
     not_found sky_question new_response"
proof -
  let ?e = "stub_env\<lparr>query := (\<lambda>ix v k md. Inr weak_matches)\<rparr>"
  have h3: "truthy (JStr (S ''stale-id''))" by (simp add: S_def)
  have h4: "embeddings_create ?e (S ''text-embedding-3-small'') sky_question = Inr [1 / 4, 3 / 4]"
    by (simp add: stub_env_def)
  have h5: "pineconeIndex ready_state = Some (S ''text-embeddings'')"
    by (simp add: ready_state_def)
  have h6: "query ?e (S ''text-embeddings'') [1 / 4, 3 / 4] 5 True = Inr weak_matches"
    by simp
  have h7: "\<forall>r. \<exists>content. chat_completions_create ?e r = Inr content"
    by (simp add: stub_env_def)
  have h8: "weak_matches = [] \<or>
            ((\<forall>m \<in> set weak_matches. JStr (match_id m) \<noteq> JStr (S ''stale-id'')) \<and>
             score (hd weak_matches) < 1 / 2)"
    by (simp add: weak_matches_def S_def)
  from not_found_exactly_when_no_usable_match
         [OF initClients_ready destructure2_ask_body log_received_strings
             sky_question_valid h3 h4 h5 h6 h7, of new_response] h8
  show ?thesis by blast
qed

text \<open>
  C3. When some match has the id \<^verbatim>\<open>documentID\<close>, \<^verbatim>\<open>find\<close> returns the first such match,
  and the last provider call is the chat completion with the strict prompt and the question
  as the user turn. The prompt sent is what the specification says of the strict variant
  (\<open>spec_strict_prompt\<close>): instructions to answer using only the provided context and no
  outside knowledge, to resolve paraphrases, to reply with the refusal sentence when the
  answer is not in the context and to be concise, followed by that match's stored text as
  the context. When the completion returns, the response is \<^verbatim>\<open>{question, answer}\<close> with
  the model's output and the status code is left as the runtime set it (200).
\<close>

theorem exact_match_strict_prompt:
  assumes "initClients e s = (Inr u, s', cs0)"
    and "destructure2 b (S ''question'') (S ''documentID'') = Inr (question, documentID)"
    and "log_received question documentID = Inr ()"
    and "truthy question" and "is_string question" and "truthy documentID"
    and "embeddings_create e (S ''text-embedding-3-small'') question = Inr v"
    and "pineconeIndex s' = Some ix"
    and "query e ix v 5 True = Inr matches"
    and "m \<in> set matches" and "JStr (match_id m) = documentID"
  shows "\<exists>exactMatch rq.
           find (\<lambda>m. JStr (match_id m) = documentID) matches = Some exactMatch \<and>
           exactMatch \<in> set matches \<and> match_id exactMatch = match_id m \<and>
           snd (snd (handleAsk e s b res)) =
             cs0 @ [EmbeddingsCreate (S ''text-embedding-3-small'') question,
                    Query ix v 5 True,
                    ChatCreate rq] \<and>
           rq = completion_request e (strict_instructions @ metadata_text exactMatch) question \<and>
           spec_strict_prompt (system_content rq) (metadata_text exactMatch) \<and>
           user_content rq = question \<and>
           includes_str strict_instructions refusal_sentence \<and>
           (\<forall>content.
              chat_completions_create e rq = Inr content \<longrightarrow>
              fst (handleAsk e s b res) =
                json (JObj [(S ''question'', question), (S ''answer'', JStr content)]) res \<and>
              statusCode (fst (handleAsk e s b res)) = statusCode res)"
proof -
  have "find (\<lambda>m. JStr (match_id m) = documentID) matches \<noteq> None"
    using assms(10,11) by (auto simp: find_None_iff)
  then obtain x where x: "find (\<lambda>m. JStr (match_id m) = documentID) matches = Some x"
    by auto
  then have xin: "x \<in> set matches" and xid: "JStr (match_id x) = documentID"
    by (auto simp: find_Some_iff)
  have ne: "matches \<noteq> []" using assms(10) by auto
  let ?rq = "completion_request e (strict_instructions @ metadata_text x) question"
  have sel: "select_and_answer e question documentID matches res =
               answer_with e (strict_instructions @ metadata_text x) question res"
    using x ne by (simp add: select_and_answer_def)
  have calls: "snd (snd (handleAsk e s b res)) =
             cs0 @ [EmbeddingsCreate (S ''text-embedding-3-small'') question,
                    Query ix v 5 True, ChatCreate ?rq]"
    using handleAsk_selection [OF assms(1-9), of res] sel
    by (auto simp: answer_with_def Let_def split: sum.splits)
  have resp: "\<forall>content.
              chat_completions_create e ?rq = Inr content \<longrightarrow>
              fst (handleAsk e s b res) =
                json (JObj [(S ''question'', question), (S ''answer'', JStr content)]) res \<and>
              statusCode (fst (handleAsk e s b res)) = statusCode res"
    using handleAsk_selection [OF assms(1-9), of res] sel
    by (auto simp: answer_with_def Let_def json_def split: sum.splits)
  have spec: "spec_strict_prompt (system_content ?rq) (metadata_text x)"
    using strict_prompt_meets_spec [of "metadata_text x"]
    by (simp add: completion_request_def)
  have user: "user_content ?rq = question"
    by (simp add: completion_request_def)
  have "JStr (match_id x) = JStr (match_id m)"
    using xid assms(11) by (simp only:)
  then have idm: "match_id x = match_id m"
    by simp
  show ?thesis
    using x xin idm calls spec user strict_has_refusal resp by blast
qed

theorem exact_match_strict_prompt_witness:
  "fst (handleAsk stub_env ready_state (ask_body ''doc1'') new_response) =
     json (JObj [(S ''question'', sky_question),
                 (S ''answer'', JStr (strict_instructions @ S ''The sky is blue.''))])
       new_response"
proof -
  let ?m = "\<lparr>match_id = S ''doc1'', score = 9 / 10, metadata_text = S ''The sky is blue.''\<rparr>"
  have h3: "truthy (JStr (S ''doc1''))" by (simp add: S_def)
  have h4: "embeddings_create stub_env (S ''text-embedding-3-small'') sky_question =
              Inr [1 / 4, 3 / 4]"
    by (simp add: stub_env_def)
  have h5: "pineconeIndex ready_state = Some (S ''text-embeddings'')"
    by (simp add: ready_state_def)
  have h6: "query stub_env (S ''text-embeddings'') [1 / 4, 3 / 4] 5 True = Inr stub_matches"
    by (simp add: stub_env_def)
  have h7: "?m \<in> set stub_matches" by (simp add: stub_matches_def)
  have h8: "JStr (match_id ?m) = JStr (S ''doc1'')" by simp
  have f: "find (\<lambda>m. JStr (match_id m) = JStr (S ''doc1'')) stub_matches = Some ?m"
    by (simp add: stub_matches_def)
  have c: "chat_completions_create stub_env
             (completion_request stub_env (strict_instructions @ metadata_text ?m) sky_question) =
           Inr (strict_instructions @ S ''The sky is blue.'')"
    by (simp add: stub_env_def completion_request_def)
  from exact_match_strict_prompt
         [OF initClients_ready destructure2_ask_body log_received_strings
             sky_question_valid h3 h4 h5 h6 h7 h8, of new_response] f c
  show ?thesis by auto
qed



section \<open>Preflight\<close>

text \<open>
  C8. A request whose method is \<^verbatim>\<open>OPTIONS\<close> is answered with status 200 and an ended,
  empty response that carries the four cross-origin headers, whatever its URL: the URL
  is not parsed, no handler runs, no provider is called and the module state is
  unchanged.
\<close>

theorem options_preflight:
  assumes "req_method req = S ''OPTIONS''"
  shows "handler e s req res =
           (None, end_response (status 200 (setCorsHeaders e req res)), s, []) \<and>
         statusCode (fst (snd (handler e s req res))) = 200 \<and>
         sent (fst (snd (handler e s req res))) = Ended \<and>
         {ACAO, ACAC, ACAM, ACAH} \<subseteq> dom (headers (fst (snd (handler e s req res))))"
  using assms
  by (simp add: handler_def Let_def end_response_def status_def setCorsHeaders_def setHeader_def)

theorem options_preflight_witness:
  "statusCode (fst (snd (handler stub_env initial_state options_request new_response))) = 200 \<and>
   sent (fst (snd (handler stub_env initial_state options_request new_response))) = Ended \<and>
   snd (snd (handler stub_env initial_state options_request new_response)) = (initial_state, [])"
proof -
  have h: "req_method options_request = S ''OPTIONS''"
    by (simp add: options_request_def)
  from options_preflight [OF h, of stub_env initial_state new_response]
  show ?thesis by (simp add: end_response_def status_def)
qed

section \<open>Health check ignores the method\<close>

text \<open>
  C9. A request whose method is not \<^verbatim>\<open>OPTIONS\<close> and whose normalised path is \<^verbatim>\<open>/\<close> or
  \<^verbatim>\<open>/health\<close> is answered by the health handler with status 200 and the body
  \<^verbatim>\<open>{status: "ok"}\<close>, whatever the method is (the example below is a DELETE); there is no
  method-not-allowed answer on these paths.
\<close>

theorem health_ignores_method:
  assumes "req_method req \<noteq> S ''OPTIONS''"
    and "URL_pathname e (url req) (S ''http://'' @ or_default (host req) (S ''localhost'')) =
           Inr pathname"
    and "normalize_path pathname = S ''/'' \<or> normalize_path pathname = S ''/health''"
  shows "handler e s req res = (None, handleHealth (setCorsHeaders e req res), s, []) \<and>
         statusCode (fst (snd (handler e s req res))) = 200 \<and>
         sent (fst (snd (handler e s req res))) = Json (JObj [(S ''status'', JStr (S ''ok''))])"
  using assms
  by (auto simp: handler_def Let_def route_def handleHealth_def status_def json_def)

theorem health_ignores_method_witness:
  "handler stub_env initial_state evil_request new_response =
     (None, handleHealth (setCorsHeaders stub_env evil_request new_response), initial_state, []) \<and>
   statusCode (fst (snd (handler stub_env initial_state evil_request new_response))) = 200 \<and>
   sent (fst (snd (handler stub_env initial_state evil_request new_response))) =
     Json (JObj [(S ''status'', JStr (S ''ok''))])"
proof -
  have h1: "req_method evil_request \<noteq> S ''OPTIONS''"
    by (simp add: evil_request_def S_def)
  have h2: "URL_pathname stub_env (url evil_request)
              (S ''http://'' @ or_default (host evil_request) (S ''localhost'')) =
            Inr (S ''/api/health'')"
    by (simp add: evil_request_def stub_env_def S_def)
  have h3: "normalize_path (S ''/api/health'') = S ''/'' \<or>
            normalize_path (S ''/api/health'') = S ''/health''"
    by (simp add: normalize_path_def S_def)
  from health_ignores_method [OF h1 h2 h3, of initial_state new_response]
  show ?thesis .
qed

end
